theory Spec2Isabelle
  imports
    Complex_Main
    "HOL-Library.Multiset"
    "HOL-Library.Char_ord"
    "HOL-Library.List_Lexorder"
    "HOL-Library.Product_Lexorder"
begin

section \<open>Exceptions\<close>

text \<open>
  The exception classes the modelled code raises or catches. A computation that can
  raise returns \<open>error + 'a\<close>, with \<open>Inl\<close> carrying the exception.
  \<open>AuthenticationError\<close> derives from \<open>Exception\<close> directly (api/auth.py),
  \<open>NotFoundError\<close> and \<open>RateLimitError\<close> derive from \<open>APIError\<close>
  (api/client.py); the others are Python's or the libraries' own
  (\<open>RequestException\<close> and \<open>JSONDecodeError\<close> are those of \<open>requests\<close>, the
  second deriving from both \<open>RequestException\<close> and \<open>ValueError\<close>).
\<close>

datatype error =
    AuthenticationError
  | APIError
  | NotFoundError
  | RateLimitError
  | RequestException
  | ValueError
  | AttributeError
  | ZeroDivisionError
  | OverflowError
  | UnpicklingError
  | JSONDecodeError

section \<open>Expiring key-value cache (data/cache.py)\<close>

text \<open>
  A table (a pandas DataFrame) is the list of its rows; \<open>df.empty\<close> is \<open>df = []\<close>
  and \<open>len(df)\<close> is \<open>length df\<close>. Naive datetimes are counted in microseconds, so
  that \<open>timedelta(hours=h)\<close> is \<open>h * 3600000000\<close>; the ISO text written to the
  \<open>created_at\<close> and \<open>expires_at\<close> columns and parsed back by \<open>fromisoformat\<close> is the
  same instant. The BLOB column holds either the pickle of a table or bytes that do not
  unpickle.
\<close>

type_synonym time = int

datatype 'r blob = Pickle "'r list" | Corrupt "nat list"

record 'r cache_entry =
  data :: "'r blob"
  row_count :: nat
  created_at :: time
  expires_at :: time

text \<open>The table \<open>cache_entries\<close>: \<open>cache_key\<close> is UNIQUE, so it is a map from keys.\<close>

type_synonym 'r store = "string \<rightharpoonup> 'r cache_entry"

definition timedelta_hours :: "int \<Rightarrow> time" where
  "timedelta_hours h = h * 3600000000"

definition serialize_dataframe :: "'r list \<Rightarrow> 'r blob" where
  "serialize_dataframe df = Pickle df"

fun deserialize_dataframe :: "'r blob \<Rightarrow> error + 'r list" where
  "deserialize_dataframe (Pickle df) = Inr df"
| "deserialize_dataframe (Corrupt bs) = Inl UnpicklingError"

definition sanitize_key :: "string \<Rightarrow> string" where
  "sanitize_key key = key"

definition remove_entry :: "string \<Rightarrow> 'r store \<Rightarrow> 'r store" where
  "remove_entry key st = st(key := None)"

text \<open>
  \<open>CacheManager.get\<close>: the clock reading \<open>now\<close> is \<open>datetime.now()\<close>. The result is
  the returned table (\<open>None\<close> for Python's \<open>None\<close>) and the store after the call.
\<close>

definition get :: "time \<Rightarrow> string \<Rightarrow> 'r store \<Rightarrow> 'r list option \<times> 'r store" where
  "get now key st =
     (let sanitized_key = sanitize_key key in
      case st sanitized_key of
        None \<Rightarrow> (None, st)
      | Some row \<Rightarrow>
          if now \<ge> expires_at row then (None, remove_entry sanitized_key st)
          else (case deserialize_dataframe (data row) of
                  Inr df \<Rightarrow> (Some df, st)
                | Inl e \<Rightarrow> (None, remove_entry sanitized_key st)))"

text \<open>
  \<open>CacheManager.set\<close>: \<open>default_ttl_hours\<close> is the instance attribute, \<open>ttl_hours\<close>
  the optional argument. The method returns nothing and catches every exception of the
  write, so the model returns the store only. \<open>INSERT OR REPLACE\<close> on the unique key is
  the map update.
\<close>

definition set_cache ::
  "time \<Rightarrow> int \<Rightarrow> string \<Rightarrow> 'r list \<Rightarrow> int option \<Rightarrow> 'r store \<Rightarrow> 'r store" where
  "set_cache now default_ttl_hours key df ttl_hours st =
     (if df = [] then st
      else
        let sanitized_key = sanitize_key key;
            ttl = (case ttl_hours of Some h \<Rightarrow> h | None \<Rightarrow> default_ttl_hours);
            created = now;
            expires = created + timedelta_hours ttl
        in st(sanitized_key \<mapsto>
               \<lparr>data = serialize_dataframe df, row_count = length df,
                created_at = created, expires_at = expires\<rparr>))"

definition invalidate :: "string \<Rightarrow> 'r store \<Rightarrow> 'r store" where
  "invalidate key st = remove_entry (sanitize_key key) st"


section \<open>Calendar dates and the week's trading days (data/weekly_aggregator.py)\<close>

text \<open>
  A \<open>datetime.date\<close> is its proleptic Gregorian ordinal (\<open>date.toordinal()\<close>):
  0001-01-01 is day 1, a Monday, and 9999-12-31 is day 3652059, the last date Python
  represents. \<open>weekday()\<close> is 0 for Monday up to 6 for Sunday. Adding a
  \<open>timedelta\<close> raises \<open>OverflowError\<close> when the result leaves that range.
\<close>

type_synonym date = int

definition date_min :: date where
  "date_min = 1"

definition date_max :: date where
  "date_max = 3652059"

definition valid_date :: "date \<Rightarrow> bool" where
  "valid_date d \<longleftrightarrow> date_min \<le> d \<and> d \<le> date_max"

definition weekday :: "date \<Rightarrow> int" where
  "weekday d = (d + 6) mod 7"

definition date_add_days :: "date \<Rightarrow> int \<Rightarrow> error + date" where
  "date_add_days d n =
     (if date_min \<le> d + n \<and> d + n \<le> date_max then Inr (d + n) else Inl OverflowError)"

text \<open>
  The loop \<open>for i in range(5)\<close> of \<open>get_week_trading_days\<close>, over the remaining
  values of \<open>i\<close>, with the list built so far.
\<close>

fun trading_days_loop :: "date \<Rightarrow> date \<Rightarrow> int list \<Rightarrow> date list \<Rightarrow> error + date list" where
  "trading_days_loop week_start week_end [] trading_days = Inr trading_days"
| "trading_days_loop week_start week_end (i # rest) trading_days =
     (case date_add_days week_start i of
        Inl e \<Rightarrow> Inl e
      | Inr day \<Rightarrow>
          trading_days_loop week_start week_end rest
            (if day \<le> week_end \<and> weekday day < 5 then trading_days @ [day]
             else trading_days))"

definition get_week_trading_days :: "date \<Rightarrow> error + date list" where
  "get_week_trading_days week_end =
     (let days_since_monday = weekday week_end in
      case date_add_days week_end (- days_since_monday) of
        Inl e \<Rightarrow> Inl e
      | Inr week_start \<Rightarrow> trading_days_loop week_start week_end [0, 1, 2, 3, 4] [])"

text \<open>\<open>get_previous_week_end\<close>: the Friday before \<open>week_end\<close>.\<close>

definition get_previous_week_end :: "date \<Rightarrow> error + date" where
  "get_previous_week_end week_end =
     (let days_to_friday = (weekday week_end - 4) mod 7;
          days_to_friday = (if days_to_friday = 0 then 7 else days_to_friday)
      in date_add_days week_end (- days_to_friday))"


section \<open>Price tables and stock rankings (analysis/stocks.py)\<close>

text \<open>
  A DataFrame handed to an analyzer is its column names and its rows. Floats are exact
  rationals; a cell that is null (NaN, or a column the table does not have) is \<open>None\<close>.
  \<open>df.empty\<close> holds when the table has no row or no column.
\<close>

record 'r frame =
  columns :: "string list"
  rows :: "'r list"

definition empty_frame :: "'r frame \<Rightarrow> bool" where
  "empty_frame df \<longleftrightarrow> rows df = [] \<or> columns df = []"

record price_row =
  Code :: string
  CompanyName :: "string option"
  Name :: "string option"
  Close :: rat
  ChangeRate :: "rat option"
  Volume :: rat
  TurnoverValue :: rat
  PrevClose :: "rat option"
  Sector33CodeName :: "string option"

record stock_info =
  code :: string
  name :: string
  close :: rat
  change :: "rat option"
  change_pct :: "rat option"
  volume :: rat
  turnover_value :: rat
  sector_name :: string

text \<open>
  One iteration of the loop of \<open>_convert_to_stock_info\<close>. The price change is taken
  from the previous close when there is one, else recomputed from the change rate, where
  Python's float division raises \<open>ZeroDivisionError\<close> on a rate of exactly -100.
  A null rate is a NaN, which differs from 0 and makes the recomputed change a NaN.
\<close>

definition convert_row :: "price_row \<Rightarrow> error + stock_info" where
  "convert_row row =
     (let name = (case CompanyName row of Some n \<Rightarrow> n
                  | None \<Rightarrow> (case Name row of Some n \<Rightarrow> n | None \<Rightarrow> ''''));
          sector_name = (case Sector33CodeName row of Some s \<Rightarrow> s | None \<Rightarrow> '''');
          mk = (\<lambda>chg. \<lparr>code = Code row, name = name, close = Close row, change = chg,
                        change_pct = ChangeRate row, volume = Volume row,
                        turnover_value = TurnoverValue row, sector_name = sector_name\<rparr>)
      in case PrevClose row of
           Some prev_close \<Rightarrow> Inr (mk (Some (Close row - prev_close)))
         | None \<Rightarrow>
             (case ChangeRate row of
                None \<Rightarrow> Inr (mk None)
              | Some pct \<Rightarrow>
                  if pct \<noteq> 0 then
                    (if 1 + pct / 100 = 0 then Inl ZeroDivisionError
                     else Inr (mk (Some (Close row - Close row / (1 + pct / 100)))))
                  else Inr (mk (Some 0))))"

fun convert_to_stock_info :: "price_row list \<Rightarrow> error + stock_info list" where
  "convert_to_stock_info [] = Inr []"
| "convert_to_stock_info (row # rest) =
     (case convert_row row of
        Inl e \<Rightarrow> Inl e
      | Inr s \<Rightarrow>
          (case convert_to_stock_info rest of
             Inl e \<Rightarrow> Inl e
           | Inr stocks \<Rightarrow> Inr (s # stocks)))"

text \<open>
  The sort key of \<open>nsmallest\<close> and \<open>nlargest\<close> on the column \<open>ChangeRate\<close>; both
  are applied after the null rates have been filtered out.
\<close>

definition rate_key :: "price_row \<Rightarrow> rat" where
  "rate_key row = (case ChangeRate row of Some x \<Rightarrow> x | None \<Rightarrow> 0)"

text \<open>
  \<open>DataFrame.nsmallest(n, col)\<close>: the first \<open>n\<close> rows in ascending order of the
  column, ties in their original order (\<open>keep='first'\<close>); nothing for \<open>n \<le> 0\<close>.
\<close>

definition nsmallest :: "int \<Rightarrow> ('r \<Rightarrow> rat) \<Rightarrow> 'r list \<Rightarrow> 'r list" where
  "nsmallest n key df = take (nat n) (sort_key key df)"

definition get_top_losers :: "price_row frame \<Rightarrow> int \<Rightarrow> error + stock_info list" where
  "get_top_losers prices_df top_n =
     (if empty_frame prices_df \<or> ''ChangeRate'' \<notin> set (columns prices_df) then Inr []
      else
        let valid_df = filter (\<lambda>row. ChangeRate row \<noteq> None) (rows prices_df);
            losers_df = filter (\<lambda>row. rate_key row < 0) valid_df;
            sorted_df = nsmallest top_n rate_key losers_df
        in convert_to_stock_info sorted_df)"

text \<open>A row of a price table for the examples: a code, a close of 100, a change rate.\<close>

abbreviation price_demo :: "string \<Rightarrow> rat option \<Rightarrow> price_row" where
  "price_demo c r \<equiv>
     \<lparr>Code = c, CompanyName = None, Name = None, Close = 100, ChangeRate = r,
      Volume = 1000, TurnoverValue = 100000, PrevClose = None, Sector33CodeName = None\<rparr>"


section \<open>Technical indicators and market breadth (analysis/technical.py, analysis/market.py)\<close>

text \<open>
  A row of the historical table: one instrument on one day. The \<open>Date\<close> column is
  modelled by the day's ordinal, which orders as the ISO date text does.
\<close>

record hist_row =
  HCode :: string
  HDate :: date
  HClose :: rat
  HChangeRate :: "rat option"

text \<open>
  \<open>df.tail(n)\<close>, for \<open>n \<ge> 0\<close>: the last \<open>n\<close> rows, all of them when there are
  fewer.
\<close>

definition tail :: "nat \<Rightarrow> 'a list \<Rightarrow> 'a list" where
  "tail n xs = drop (length xs - n) xs"







text \<open>
  A float that a division can produce: a finite value, an infinity or a NaN (a null, for
  pandas). \<open>pct_of diff base\<close> is \<open>diff / base * 100\<close> on numpy floats, where a division
  by zero raises nothing.
\<close>

datatype fval = Fin rat | PosInf | NegInf | NaN

definition pct_of :: "rat \<Rightarrow> rat \<Rightarrow> fval" where
  "pct_of diff base =
     (if base = 0 then (if diff > 0 then PosInf else if diff < 0 then NegInf else NaN)
      else Fin (diff / base * 100))"

fun fadd :: "fval \<Rightarrow> fval \<Rightarrow> fval" where
  "fadd (Fin a) (Fin b) = Fin (a + b)"
| "fadd NaN _ = NaN"
| "fadd _ NaN = NaN"
| "fadd PosInf NegInf = NaN"
| "fadd NegInf PosInf = NaN"
| "fadd PosInf _ = PosInf"
| "fadd _ PosInf = PosInf"
| "fadd NegInf _ = NegInf"
| "fadd _ NegInf = NegInf"

definition fmean :: "fval list \<Rightarrow> fval" where
  "fmean xs =
     (case foldl fadd (Fin 0) xs of
        Fin s \<Rightarrow> Fin (s / of_nat (length xs))
      | v \<Rightarrow> v)"

text \<open>
  The moving average of \<open>calculate_ma_divergence\<close> for one code:
  \<open>groupby("Code")["Close"].tail(period)\<close> regrouped by code and averaged, that is the
  mean of the last \<open>period\<close> closes the historical table has for the code, however few
  they are; null when it has none (the left join finds no match).
\<close>

definition ma_value :: "hist_row list \<Rightarrow> nat \<Rightarrow> string \<Rightarrow> rat option" where
  "ma_value hist period c =
     (let closes = map HClose (tail period (filter (\<lambda>r. HCode r = c) hist))
      in if closes = [] then None
         else Some (sum_list closes / of_nat (length closes)))"

definition calculate_ma_divergence ::
  "price_row frame \<Rightarrow> hist_row frame \<Rightarrow> nat \<Rightarrow> fval option \<times> rat option" where
  "calculate_ma_divergence current_df historical_df period =
     (if empty_frame current_df \<or> empty_frame historical_df
         \<or> ''Close'' \<notin> set (columns historical_df) then (None, None)
      else if ''Close'' \<notin> set (columns current_df) then (None, None)
      else
        let result_df = map (\<lambda>row. (row, ma_value (rows historical_df) period (Code row)))
                          (rows current_df);
            divergence = map (\<lambda>(row, ma). case ma of None \<Rightarrow> NaN
                                            | Some m \<Rightarrow> pct_of (Close row - m) m) result_df;
            valid_divergence = filter (\<lambda>v. v \<noteq> NaN) divergence
        in if length valid_divergence = 0 then (None, None)
           else
             let avg_divergence = fmean valid_divergence;
                 stocks_above_ma =
                   length (filter (\<lambda>(row, ma). case ma of None \<Rightarrow> False
                                               | Some m \<Rightarrow> Close row > m) result_df);
                 total_stocks = length (filter (\<lambda>(row, ma). ma \<noteq> None) result_df)
             in (Some avg_divergence,
                 if total_stocks > 0
                 then Some (of_nat stocks_above_ma / of_nat total_stocks * 100) else None))"

text \<open>
  The sibling computation in analysis/weekly/technical.py, \<open>_calculate_ma_status\<close>:
  \<open>x.tail(p).mean() if len(x) >= p * 0.8 else None\<close> on the closes of one code.
\<close>

definition weekly_ma_value :: "hist_row list \<Rightarrow> nat \<Rightarrow> string \<Rightarrow> rat option" where
  "weekly_ma_value hist period c =
     (let x = map HClose (filter (\<lambda>r. HCode r = c) hist)
      in if x \<noteq> [] \<and> 5 * length x \<ge> 4 * period
         then Some (sum_list (tail period x) / of_nat (length (tail period x)))
         else None)"

text \<open>A row of the historical table for the examples.\<close>

abbreviation hist_demo :: "string \<Rightarrow> date \<Rightarrow> rat \<Rightarrow> rat option \<Rightarrow> hist_row" where
  "hist_demo c d cl r \<equiv> \<lparr>HCode = c, HDate = d, HClose = cl, HChangeRate = r\<rparr>"




section \<open>Weekly aggregation of daily quotes (data/weekly_aggregator.py)\<close>

text \<open>
  A row of a daily quote table. The three company columns are optional in the data; an
  absent column reads as null in every row. \<open>TradeDate\<close> is the column the aggregator
  itself writes.
\<close>

record daily_quote =
  DCode :: string
  DOpen :: rat
  DHigh :: rat
  DLow :: rat
  DClose :: rat
  DVolume :: rat
  DTurnoverValue :: rat
  TradeDate :: date
  DCompanyName :: "string option"
  DSector33Code :: "string option"
  DSector33CodeName :: "string option"

record weekly_row =
  WCode :: string
  WeekOpen :: rat
  WeekHigh :: rat
  WeekLow :: rat
  WeekClose :: rat
  WeekVolume :: rat
  WeekTurnover :: rat
  TradingDays :: nat
  FirstDate :: date
  LastDate :: date
  WCompanyName :: "string option"
  WSector33Code :: "string option"
  WSector33CodeName :: "string option"
  PrevWeekClose :: "rat option"
  WeeklyReturn :: fval

text \<open>\<open>df["TradeDate"] = day\<close>\<close>

definition set_trade_date :: "date \<Rightarrow> daily_quote list \<Rightarrow> daily_quote list" where
  "set_trade_date day df = map (\<lambda>r. r\<lparr>TradeDate := day\<rparr>) df"

text \<open>
  The loop that collects the daily tables. The aggregator's collaborators are injected
  objects, so they are parameters here: \<open>cache_get\<close> is \<open>self.cache.get\<close> and
  \<open>fetcher\<close> is \<open>self.fetcher.fetch_daily_quotes\<close> when a fetcher was given; both act
  on a state \<open>'s\<close> (the cache store, the clock, the network) that the loop threads
  through. \<open>strftime\<close> formats a date as \<open>%Y-%m-%d\<close>.
\<close>

fun collect_daily ::
  "(string \<Rightarrow> 's \<Rightarrow> daily_quote list option \<times> 's) \<Rightarrow>
   (date \<Rightarrow> 's \<Rightarrow> daily_quote list \<times> 's) option \<Rightarrow> (date \<Rightarrow> string) \<Rightarrow>
   date list \<Rightarrow> 's \<Rightarrow> daily_quote list list \<times> 's" where
  "collect_daily cache_get fetcher strftime [] s = ([], s)"
| "collect_daily cache_get fetcher strftime (day # rest) s =
     (let date_str = strftime day;
          (df, s1) = cache_get (''daily_quotes_'' @ date_str) s
      in if df \<noteq> None \<and> the df \<noteq> [] then
           (let (daily_dfs, s2) = collect_daily cache_get fetcher strftime rest s1
            in (set_trade_date day (the df) # daily_dfs, s2))
         else
           (case fetcher of
              Some fetch_daily_quotes \<Rightarrow>
                (let (df', s2) = fetch_daily_quotes day s1;
                     (daily_dfs, s3) = collect_daily cache_get fetcher strftime rest s2
                 in if df' \<noteq> [] then (set_trade_date day df' # daily_dfs, s3)
                    else (daily_dfs, s3))
            | None \<Rightarrow> collect_daily cache_get fetcher strftime rest s1))"

text \<open>
  The named aggregations of \<open>groupby("Code").agg(...)\<close> on the rows of one code, which
  arrive sorted by date: first open, last close, maximum high, minimum low, the sums, the
  number of distinct dates and the first and last date. A group is never empty.
\<close>

definition agg_group :: "string \<Rightarrow> daily_quote list \<Rightarrow> weekly_row" where
  "agg_group c g =
     \<lparr>WCode = c,
      WeekOpen = DOpen (hd g),
      WeekHigh = Max (set (map DHigh g)),
      WeekLow = Min (set (map DLow g)),
      WeekClose = DClose (last g),
      WeekVolume = sum_list (map DVolume g),
      WeekTurnover = sum_list (map DTurnoverValue g),
      TradingDays = length (remdups (map TradeDate g)),
      FirstDate = Min (set (map TradeDate g)),
      LastDate = Max (set (map TradeDate g)),
      WCompanyName = None, WSector33Code = None, WSector33CodeName = None,
      PrevWeekClose = None, WeeklyReturn = NaN\<rparr>"

text \<open>\<open>groupby("Code")\<close>: one group per distinct code, the groups in ascending order.\<close>

definition groupby_code_agg :: "daily_quote list \<Rightarrow> weekly_row list" where
  "groupby_code_agg combined_df =
     map (\<lambda>c. agg_group c (filter (\<lambda>r. DCode r = c) combined_df))
         (sort (remdups (map DCode combined_df)))"

text \<open>\<open>drop_duplicates(key)\<close> keeps the first row of every key.\<close>

fun drop_duplicates :: "('r \<Rightarrow> 'k) \<Rightarrow> 'r list \<Rightarrow> 'r list" where
  "drop_duplicates key [] = []"
| "drop_duplicates key (x # xs) = x # drop_duplicates key (filter (\<lambda>y. key y \<noteq> key x) xs)"

text \<open>
  \<open>left.merge(right, on=key, how="left")\<close>: every left row, in order, once for each
  right row of the same key (in the right table's order), and once with nulls when the
  right table has none.
\<close>

definition merge_left :: "'l list \<Rightarrow> ('l \<Rightarrow> 'k) \<Rightarrow> 'r list \<Rightarrow> ('r \<Rightarrow> 'k) \<Rightarrow> ('l \<times> 'r option) list" where
  "merge_left left lkey right rkey =
     concat (map (\<lambda>l. case filter (\<lambda>r. rkey r = lkey l) right of
                        [] \<Rightarrow> [(l, None)]
                      | ms \<Rightarrow> map (\<lambda>r. (l, Some r)) ms) left)"

definition with_company_info :: "weekly_row \<times> daily_quote option \<Rightarrow> weekly_row" where
  "with_company_info p =
     (case p of
        (w, None) \<Rightarrow> w
      | (w, Some r) \<Rightarrow> w\<lparr>WCompanyName := DCompanyName r, WSector33Code := DSector33Code r,
                          WSector33CodeName := DSector33CodeName r\<rparr>)"

text \<open>
  The columns \<open>PrevWeekClose\<close> and \<open>WeeklyReturn\<close> after the join with the previous
  week's closes: \<open>(WeekClose - PrevWeekClose) / PrevWeekClose * 100\<close>, a NaN where the
  join found no previous close.
\<close>

definition with_weekly_return :: "weekly_row \<times> daily_quote option \<Rightarrow> weekly_row" where
  "with_weekly_return p =
     (case p of
        (w, None) \<Rightarrow> w\<lparr>PrevWeekClose := None, WeeklyReturn := NaN\<rparr>
      | (w, Some r) \<Rightarrow> w\<lparr>PrevWeekClose := Some (DClose r),
                          WeeklyReturn := pct_of (WeekClose w - DClose r) (DClose r)\<rparr>)"

text \<open>
  The part of \<open>aggregate_daily_quotes\<close> after the collection loop, on the non-empty
  list of collected tables: first the weekly table with the company columns of the last
  day joined in, then the join with the previous week's closes.
\<close>

definition weekly_agg_with_info :: "daily_quote list list \<Rightarrow> weekly_row list" where
  "weekly_agg_with_info daily_dfs =
     (let combined_df = concat daily_dfs;
          combined_df = sort_key (\<lambda>r. (DCode r, TradeDate r)) combined_df;
          weekly_agg = groupby_code_agg combined_df;
          last_day_df = filter (\<lambda>r. TradeDate r = Max (set (map TradeDate combined_df)))
                          combined_df;
          company_info = drop_duplicates DCode last_day_df
      in map with_company_info (merge_left weekly_agg WCode company_info DCode))"

definition aggregate_frames ::
  "daily_quote list list \<Rightarrow> daily_quote list option \<Rightarrow> weekly_row list" where
  "aggregate_frames daily_dfs prev_week_close_df =
     (let weekly_agg = weekly_agg_with_info daily_dfs
      in if prev_week_close_df \<noteq> None \<and> the prev_week_close_df \<noteq> [] then
           map with_weekly_return
             (merge_left weekly_agg WCode (the prev_week_close_df) DCode)
         else map (\<lambda>w. w\<lparr>WeeklyReturn := NaN, PrevWeekClose := None\<rparr>) weekly_agg)"

definition aggregate_daily_quotes ::
  "(string \<Rightarrow> 's \<Rightarrow> daily_quote list option \<times> 's) \<Rightarrow>
   (date \<Rightarrow> 's \<Rightarrow> daily_quote list \<times> 's) option \<Rightarrow> (date \<Rightarrow> string) \<Rightarrow>
   date list \<Rightarrow> daily_quote list option \<Rightarrow> 's \<Rightarrow> weekly_row list \<times> 's" where
  "aggregate_daily_quotes cache_get fetcher strftime trading_days prev_week_close_df s =
     (if trading_days = [] then ([], s)
      else
        let (daily_dfs, s') = collect_daily cache_get fetcher strftime trading_days s
        in if daily_dfs = [] then ([], s')
           else (aggregate_frames daily_dfs prev_week_close_df, s'))"


text \<open>A quote row for the examples: code, date, open and close; high, low and volume fixed.\<close>

abbreviation quote_demo :: "string \<Rightarrow> rat \<Rightarrow> rat \<Rightarrow> daily_quote" where
  "quote_demo c opn cls \<equiv>
     \<lparr>DCode = c, DOpen = opn, DHigh = cls + 1, DLow = opn - 1, DClose = cls,
      DVolume = 1000, DTurnoverValue = 20000, TradeDate = 0,
      DCompanyName = None, DSector33Code = None, DSector33CodeName = None\<rparr>"


text \<open>
  A week for the examples: the cache holds, unexpired at time 5, one table per day from
  Monday 2024-11-11 (day 739201) to Friday 2024-11-15 for the code 1301, with the opens
  10 to 14 and the closes 10.5 to 14.5; \<open>week_demo\<close> is what the loop collects from it.
\<close>

definition strftime_demo :: "date \<Rightarrow> string" where
  "strftime_demo d =
     (if d = 739201 then ''2024-11-11'' else if d = 739202 then ''2024-11-12''
      else if d = 739203 then ''2024-11-13'' else if d = 739204 then ''2024-11-14''
      else if d = 739205 then ''2024-11-15'' else ''0001-01-01'')"

definition entry_demo :: "daily_quote list \<Rightarrow> daily_quote cache_entry" where
  "entry_demo df = \<lparr>data = Pickle df, row_count = length df, created_at = 0, expires_at = 10\<rparr>"

definition store_demo :: "daily_quote store" where
  "store_demo =
     [''daily_quotes_2024-11-11'' \<mapsto> entry_demo [quote_demo ''1301'' 10 10.5],
      ''daily_quotes_2024-11-12'' \<mapsto> entry_demo [quote_demo ''1301'' 11 11.5],
      ''daily_quotes_2024-11-13'' \<mapsto> entry_demo [quote_demo ''1301'' 12 12.5],
      ''daily_quotes_2024-11-14'' \<mapsto> entry_demo [quote_demo ''1301'' 13 13.5],
      ''daily_quotes_2024-11-15'' \<mapsto> entry_demo [quote_demo ''1301'' 14 14.5]]"

definition week_demo :: "daily_quote list list" where
  "week_demo =
     [set_trade_date 739201 [quote_demo ''1301'' 10 10.5],
      set_trade_date 739202 [quote_demo ''1301'' 11 11.5],
      set_trade_date 739203 [quote_demo ''1301'' 12 12.5],
      set_trade_date 739204 [quote_demo ''1301'' 13 13.5],
      set_trade_date 739205 [quote_demo ''1301'' 14 14.5]]"


section \<open>Vendor data fetcher (data/fetcher.py)\<close>

text \<open>
  What an API client method can return: the fetcher accepts any Python value and tells a
  DataFrame, a dict and a list apart with \<open>isinstance\<close>. The DataFrame constructor
  \<open>pd.DataFrame(...)\<close> belongs to pandas and may raise on what it is given, so it is a
  parameter \<open>pd_DataFrame\<close> of the model.
\<close>

datatype 'r pyval =
    PNone
  | PFrame "'r list"
  | PDict "(string \<times> 'r pyval) list"
  | PList "'r pyval list"
  | PStr string
  | PNum rat

text \<open>The keyword arguments of a client call.\<close>

record call_args =
  arg_date :: "string option"
  arg_code :: "string option"
  arg_from_date :: "string option"
  arg_to_date :: "string option"

text \<open>
  The fetcher's state: the cache it shares, its \<open>_last_request_time\<close> and the clock
  (\<open>time.time()\<close> and \<open>datetime.now()\<close>, in microseconds), which \<open>time.sleep\<close>
  advances.
\<close>

record 'r fetcher =
  cache :: "'r store"
  last_request_time :: time
  clock :: time

definition MIN_REQUEST_INTERVAL :: time where
  "MIN_REQUEST_INTERVAL = 1000000"

definition rate_limit :: "'r fetcher \<Rightarrow> 'r fetcher" where
  "rate_limit st =
     (let elapsed = clock st - last_request_time st;
          st1 = (if elapsed < MIN_REQUEST_INTERVAL
                 then st\<lparr>clock := clock st + (MIN_REQUEST_INTERVAL - elapsed)\<rparr> else st)
      in st1\<lparr>last_request_time := clock st1\<rparr>)"

text \<open>
  \<open>_make_api_call\<close>: the client is a table of methods (\<open>getattr\<close> raises
  \<open>AttributeError\<close> for a name it does not have), a method either raises or returns a
  value. Both \<open>except\<close> clauses return \<open>None\<close>.
\<close>

definition make_api_call ::
  "(string \<Rightarrow> (call_args \<Rightarrow> error + 'r pyval) option) \<Rightarrow> string \<Rightarrow> call_args \<Rightarrow>
   'r fetcher \<Rightarrow> 'r pyval \<times> 'r fetcher" where
  "make_api_call client method_name args st =
     (let st1 = rate_limit st;
          attempt = (case client method_name of
                       None \<Rightarrow> Inl AttributeError
                     | Some method \<Rightarrow> method args)
      in case attempt of
           Inr response \<Rightarrow> (response, st1)
         | Inl e \<Rightarrow> (PNone, st1))"

text \<open>
  The fetch methods share one body and differ in the entries of this record: the cache
  key, the client method and its arguments, the key of the dataset in a dict response,
  whether a DataFrame response is taken as it is (the \<open>isinstance(response, pd.DataFrame)\<close>
  branch), whether any other value is wrapped as \<open>pd.DataFrame([response])\<close> or replaced
  by an empty table, whether the column names are normalised afterwards (a \<open>rename\<close>,
  which leaves the rows of the model as they are), whether \<open>cache.set\<close> is guarded by
  \<open>not df.empty\<close>, and the time to live.
\<close>

record fetch_spec =
  cache_key :: string
  method_name :: string
  args :: call_args
  dataset_key :: string
  accepts_frame :: bool
  wraps_other :: bool
  set_if_nonempty :: bool
  ttl_hours :: int

text \<open>The body of the \<open>try\<close> block up to the table \<open>df\<close>.\<close>

definition response_to_frame ::
  "('r pyval \<Rightarrow> error + 'r list) \<Rightarrow> fetch_spec \<Rightarrow> 'r pyval \<Rightarrow> error + 'r list" where
  "response_to_frame pd_DataFrame spec response =
     (case response of
        PFrame df \<Rightarrow>
          if accepts_frame spec then Inr df
          else if wraps_other spec then pd_DataFrame (PList [response]) else Inr []
      | PDict d \<Rightarrow>
          (case map_of d (dataset_key spec) of
             Some v \<Rightarrow> pd_DataFrame v
           | None \<Rightarrow> if wraps_other spec then pd_DataFrame (PList [response]) else Inr [])
      | PList l \<Rightarrow> pd_DataFrame response
      | _ \<Rightarrow> if wraps_other spec then pd_DataFrame (PList [response]) else Inr [])"

text \<open>
  The common body of the fetch methods. The result is the returned table, or the
  exception that leaves the method, and the fetcher's state afterwards.
\<close>

definition fetch_dataset ::
  "('r pyval \<Rightarrow> error + 'r list) \<Rightarrow> (string \<Rightarrow> (call_args \<Rightarrow> error + 'r pyval) option) \<Rightarrow>
   fetch_spec \<Rightarrow> bool \<Rightarrow> 'r fetcher \<Rightarrow> (error + 'r list) \<times> 'r fetcher" where
  "fetch_dataset pd_DataFrame client spec force_refresh st =
     (let (cached_data, st1) =
            (if \<not> force_refresh then
               (let (c, store') = get (clock st) (cache_key spec) (cache st)
                in (c, st\<lparr>cache := store'\<rparr>))
             else (None, st))
      in case cached_data of
           Some df \<Rightarrow> (Inr df, st1)
         | None \<Rightarrow>
             (let (response, st2) = make_api_call client (method_name spec) (args spec) st1
              in if response = PNone then (Inr [], st2)
                 else
                   (case response_to_frame pd_DataFrame spec response of
                      Inl e \<Rightarrow> (Inr [], st2)
                    | Inr df \<Rightarrow>
                        (Inr df,
                         if set_if_nonempty spec \<longrightarrow> df \<noteq> []
                         then st2\<lparr>cache := set_cache (clock st2) 24 (cache_key spec) df
                                               (Some (ttl_hours spec)) (cache st2)\<rparr>
                         else st2))))"

text \<open>The fetch operations of \<open>DataFetcher\<close> and the entries each one has.\<close>

datatype fetch_op =
    FetchListedInfo
  | FetchDailyQuotes date "string option"
  | FetchIndices date
  | FetchTopix date
  | FetchTradesSpec date
  | FetchMarginInterest date
  | FetchShortSelling date
  | FetchStatements string
  | FetchAnnouncement
  | FetchDateRangeQuotes date date "string option"

definition no_args :: call_args where
  "no_args = \<lparr>arg_date = None, arg_code = None, arg_from_date = None, arg_to_date = None\<rparr>"

text \<open>\<open>f"_{code}" if code else ""\<close>: a code that is \<open>None\<close> or empty adds nothing.\<close>

definition code_suffix :: "string option \<Rightarrow> string" where
  "code_suffix c = (case c of None \<Rightarrow> '''' | Some s \<Rightarrow> if s = '''' then '''' else ''_'' @ s)"

fun spec_of :: "(date \<Rightarrow> string) \<Rightarrow> fetch_op \<Rightarrow> fetch_spec" where
  "spec_of strftime FetchListedInfo =
     \<lparr>cache_key = ''listed_info'', method_name = ''get_listed_info'', args = no_args,
      dataset_key = ''info'', accepts_frame = True, wraps_other = True,
      set_if_nonempty = True, ttl_hours = 24\<rparr>"
| "spec_of strftime (FetchDailyQuotes target_date c) =
     \<lparr>cache_key = ''daily_quotes_'' @ strftime target_date @ code_suffix c,
      method_name = ''get_daily_quotes'',
      args = no_args\<lparr>arg_date := Some (strftime target_date), arg_code := c\<rparr>,
      dataset_key = ''daily_quotes'', accepts_frame = True, wraps_other = True,
      set_if_nonempty = True, ttl_hours = 24\<rparr>"
| "spec_of strftime (FetchIndices target_date) =
     \<lparr>cache_key = ''indices_'' @ strftime target_date, method_name = ''get_indices'',
      args = no_args\<lparr>arg_date := Some (strftime target_date)\<rparr>,
      dataset_key = ''indices'', accepts_frame = True, wraps_other = True,
      set_if_nonempty = True, ttl_hours = 24\<rparr>"
| "spec_of strftime (FetchTopix target_date) =
     \<lparr>cache_key = ''topix_'' @ strftime target_date, method_name = ''get_topix'',
      args = no_args\<lparr>arg_date := Some (strftime target_date)\<rparr>,
      dataset_key = ''topix'', accepts_frame = False, wraps_other = True,
      set_if_nonempty = False, ttl_hours = 24\<rparr>"
| "spec_of strftime (FetchTradesSpec target_date) =
     \<lparr>cache_key = ''trades_spec_'' @ strftime target_date, method_name = ''get_trades_spec'',
      args = no_args\<lparr>arg_date := Some (strftime target_date)\<rparr>,
      dataset_key = ''trades_spec'', accepts_frame = False, wraps_other = True,
      set_if_nonempty = False, ttl_hours = 24\<rparr>"
| "spec_of strftime (FetchMarginInterest target_date) =
     \<lparr>cache_key = ''margin_interest_'' @ strftime target_date,
      method_name = ''get_weekly_margin_trading'',
      args = no_args\<lparr>arg_date := Some (strftime target_date)\<rparr>,
      dataset_key = ''weekly_margin_interest'', accepts_frame = True, wraps_other = True,
      set_if_nonempty = True, ttl_hours = 24\<rparr>"
| "spec_of strftime (FetchShortSelling target_date) =
     \<lparr>cache_key = ''short_selling_'' @ strftime target_date,
      method_name = ''get_short_selling'',
      args = no_args\<lparr>arg_date := Some (strftime target_date)\<rparr>,
      dataset_key = ''short_selling'', accepts_frame = True, wraps_other = True,
      set_if_nonempty = True, ttl_hours = 24\<rparr>"
| "spec_of strftime (FetchStatements c) =
     \<lparr>cache_key = ''statements_'' @ c, method_name = ''get_statements'',
      args = no_args\<lparr>arg_code := Some c\<rparr>,
      dataset_key = ''statements'', accepts_frame = False, wraps_other = True,
      set_if_nonempty = False, ttl_hours = 24\<rparr>"
| "spec_of strftime FetchAnnouncement =
     \<lparr>cache_key = ''announcement'', method_name = ''get_announcement'', args = no_args,
      dataset_key = ''announcement'', accepts_frame = False, wraps_other = True,
      set_if_nonempty = False, ttl_hours = 6\<rparr>"
| "spec_of strftime (FetchDateRangeQuotes start_date end_date c) =
     \<lparr>cache_key = ''quotes_range_'' @ strftime start_date @ ''_'' @ strftime end_date
                   @ code_suffix c,
      method_name = ''get_daily_quotes'',
      args = no_args\<lparr>arg_code := c, arg_from_date := Some (strftime start_date),
                      arg_to_date := Some (strftime end_date)\<rparr>,
      dataset_key = ''daily_quotes'', accepts_frame = True, wraps_other = False,
      set_if_nonempty = True, ttl_hours = 24\<rparr>"

definition run_fetch ::
  "('r pyval \<Rightarrow> error + 'r list) \<Rightarrow> (string \<Rightarrow> (call_args \<Rightarrow> error + 'r pyval) option) \<Rightarrow>
   (date \<Rightarrow> string) \<Rightarrow> fetch_op \<Rightarrow> bool \<Rightarrow> 'r fetcher \<Rightarrow> (error + 'r list) \<times> 'r fetcher" where
  "run_fetch pd_DataFrame client strftime op force_refresh st =
     fetch_dataset pd_DataFrame client (spec_of strftime op) force_refresh st"

definition fetch_daily_quotes ::
  "('r pyval \<Rightarrow> error + 'r list) \<Rightarrow> (string \<Rightarrow> (call_args \<Rightarrow> error + 'r pyval) option) \<Rightarrow>
   (date \<Rightarrow> string) \<Rightarrow> date \<Rightarrow> string option \<Rightarrow> bool \<Rightarrow> 'r fetcher \<Rightarrow>
   (error + 'r list) \<times> 'r fetcher" where
  "fetch_daily_quotes pd_DataFrame client strftime target_date c force_refresh st =
     run_fetch pd_DataFrame client strftime (FetchDailyQuotes target_date c) force_refresh st"

text \<open>
  For the examples: a client whose \<open>get_daily_quotes\<close> raises, one that answers with a
  dict, and a DataFrame constructor that accepts a list of numbers (one row each) and
  raises \<open>ValueError\<close> on anything else.
\<close>

definition client_down :: "string \<Rightarrow> (call_args \<Rightarrow> error + rat pyval) option" where
  "client_down m = (if m = ''get_daily_quotes'' then Some (\<lambda>a. Inl RequestException) else None)"

definition client_up :: "rat pyval \<Rightarrow> string \<Rightarrow> (call_args \<Rightarrow> error + rat pyval) option" where
  "client_up v m = (if m = ''get_daily_quotes''
                    then Some (\<lambda>a. Inr (PDict [(''daily_quotes'', v)])) else None)"

fun frame_demo :: "rat pyval \<Rightarrow> error + rat list" where
  "frame_demo (PList l) =
     (if list_all (\<lambda>v. case v of PNum x \<Rightarrow> True | _ \<Rightarrow> False) l
      then Inr (map (\<lambda>v. case v of PNum x \<Rightarrow> x | _ \<Rightarrow> 0) l)
      else Inl ValueError)"
| "frame_demo v = Inl ValueError"

definition fetcher_demo :: "rat fetcher" where
  "fetcher_demo = \<lparr>cache = Map.empty, last_request_time = 0, clock = 5000000\<rparr>"


section \<open>API client and authenticator (api/client.py, api/auth.py)\<close>

text \<open>
  The network is a script: every HTTP request consumes the next outcome, which is a
  response (status code and body, the body \<open>None\<close> when it is not JSON, else a JSON
  object of string fields) or a transport failure (\<open>requests\<close> raises a
  \<open>RequestException\<close>); an exhausted script fails every request. The requests made are
  logged with their URL path and the credential they carried.
\<close>

record http_response =
  status_code :: nat
  json_body :: "(string \<times> string) list option"

datatype http_outcome = Got http_response | Failed

record world =
  pending :: "http_outcome list"
  sent :: "(string \<times> string) list"

definition http_request :: "string \<Rightarrow> string \<Rightarrow> world \<Rightarrow> http_outcome \<times> world" where
  "http_request url credential w =
     (case pending w of
        [] \<Rightarrow> (Failed, w\<lparr>sent := sent w @ [(url, credential)]\<rparr>)
      | r # rest \<Rightarrow> (r, w\<lparr>pending := rest, sent := sent w @ [(url, credential)]\<rparr>))"

text \<open>\<open>response.raise_for_status()\<close> raises an \<open>HTTPError\<close> for a status from 400.\<close>

definition raise_for_status :: "http_response \<Rightarrow> bool" where
  "raise_for_status r \<longleftrightarrow> 400 \<le> status_code r"

text \<open>
  The client with its authenticator: the refresh token, the ID token with its expiry
  (\<open>TokenInfo\<close>), the time of the last request, the clock (\<open>time.time()\<close>, in
  seconds) and the network.
\<close>

record client_state =
  refresh_token :: "string option"
  id_token :: "(string \<times> int) option"
  client_last_request_time :: int
  time_now :: int
  net :: world

definition TOKEN_AUTH_USER_ENDPOINT :: string where
  "TOKEN_AUTH_USER_ENDPOINT = ''/token/auth_user''"

definition TOKEN_AUTH_REFRESH_ENDPOINT :: string where
  "TOKEN_AUTH_REFRESH_ENDPOINT = ''/token/auth_refresh''"

text \<open>\<open>TokenInfo.is_expired\<close>, with the default buffer of 300 seconds.\<close>

definition is_expired :: "int \<Rightarrow> int \<Rightarrow> bool" where
  "is_expired clock_now expires \<longleftrightarrow> clock_now \<ge> expires - 300"

text \<open>
  \<open>get_refresh_token\<close>; \<open>credentials\<close> stands for the posted mail address and
  password. \<open>if self._refresh_token\<close> takes a non-empty token.
\<close>

definition get_refresh_token :: "string \<Rightarrow> client_state \<Rightarrow> (error + string) \<times> client_state" where
  "get_refresh_token credentials st =
     (case refresh_token st of
        Some t \<Rightarrow>
          if t \<noteq> '''' then (Inr t, st)
          else
            (let (out, w) = http_request TOKEN_AUTH_USER_ENDPOINT credentials (net st);
                 st1 = st\<lparr>net := w\<rparr>
             in case out of
                  Failed \<Rightarrow> (Inl AuthenticationError, st1)
                | Got r \<Rightarrow>
                    if raise_for_status r then (Inl AuthenticationError, st1)
                    else (case json_body r of
                            None \<Rightarrow> (Inl JSONDecodeError, st1)
                          | Some d \<Rightarrow>
                              (case map_of d ''refreshToken'' of
                                 None \<Rightarrow> (Inl AuthenticationError, st1)
                               | Some t' \<Rightarrow> (Inr t', st1\<lparr>refresh_token := Some t'\<rparr>))))
      | None \<Rightarrow>
          (let (out, w) = http_request TOKEN_AUTH_USER_ENDPOINT credentials (net st);
               st1 = st\<lparr>net := w\<rparr>
           in case out of
                Failed \<Rightarrow> (Inl AuthenticationError, st1)
              | Got r \<Rightarrow>
                  if raise_for_status r then (Inl AuthenticationError, st1)
                  else (case json_body r of
                          None \<Rightarrow> (Inl JSONDecodeError, st1)
                        | Some d \<Rightarrow>
                            (case map_of d ''refreshToken'' of
                               None \<Rightarrow> (Inl AuthenticationError, st1)
                             | Some t' \<Rightarrow> (Inr t', st1\<lparr>refresh_token := Some t'\<rparr>)))))"

text \<open>\<open>get_id_token\<close>: a fresh ID token is valid for 24 hours.\<close>

definition get_id_token ::
  "string \<Rightarrow> bool \<Rightarrow> client_state \<Rightarrow> (error + string) \<times> client_state" where
  "get_id_token credentials force_refresh st =
     (if \<not> force_refresh \<and> id_token st \<noteq> None
         \<and> \<not> is_expired (time_now st) (snd (the (id_token st)))
      then (Inr (fst (the (id_token st))), st)
      else
        (case get_refresh_token credentials st of
           (Inl e, st1) \<Rightarrow> (Inl e, st1)
         | (Inr rt, st1) \<Rightarrow>
             (let (out, w) = http_request TOKEN_AUTH_REFRESH_ENDPOINT rt (net st1);
                  st2 = st1\<lparr>net := w\<rparr>
              in case out of
                   Failed \<Rightarrow> (Inl AuthenticationError, st2)
                 | Got r \<Rightarrow>
                     if raise_for_status r then (Inl AuthenticationError, st2)
                     else (case json_body r of
                             None \<Rightarrow> (Inl JSONDecodeError, st2)
                           | Some d \<Rightarrow>
                               (case map_of d ''idToken'' of
                                  None \<Rightarrow> (Inl AuthenticationError, st2)
                                | Some t \<Rightarrow>
                                    (Inr t, st2\<lparr>id_token :=
                                                  Some (t, time_now st2 + 24 * 60 * 60)\<rparr>))))))"

text \<open>\<open>get_auth_headers\<close>: the bearer token of the \<open>Authorization\<close> header.\<close>

definition get_auth_headers :: "string \<Rightarrow> client_state \<Rightarrow> (error + string) \<times> client_state" where
  "get_auth_headers credentials st = get_id_token credentials False st"

definition invalidate_tokens :: "client_state \<Rightarrow> client_state" where
  "invalidate_tokens st = st\<lparr>id_token := None\<rparr>"

text \<open>\<open>_enforce_rate_limit\<close>, with \<open>rate_limit_delay\<close> in seconds.\<close>

definition enforce_rate_limit :: "int \<Rightarrow> client_state \<Rightarrow> client_state" where
  "enforce_rate_limit rate_limit_delay st =
     (let elapsed = time_now st - client_last_request_time st;
          st1 = (if elapsed < rate_limit_delay
                 then st\<lparr>time_now := time_now st + (rate_limit_delay - elapsed)\<rparr> else st)
      in st1\<lparr>client_last_request_time := time_now st1\<rparr>)"

text \<open>
  One run of the body of \<open>_make_request\<close>. The \<open>except requests.RequestException\<close>
  clause turns a transport failure and the \<open>HTTPError\<close> of \<open>raise_for_status\<close> into an
  \<open>APIError\<close>; the exceptions raised for the status codes 401, 404, 429 and 5xx are
  not \<open>RequestException\<close>s and leave the \<open>try\<close> as they are.
\<close>

definition make_request_once ::
  "string \<Rightarrow> int \<Rightarrow> string \<Rightarrow> client_state \<Rightarrow>
   (error + (string \<times> string) list) \<times> client_state" where
  "make_request_once credentials rate_limit_delay endpoint st =
     (let st1 = enforce_rate_limit rate_limit_delay st
      in case get_auth_headers credentials st1 of
           (Inl e, st2) \<Rightarrow> (Inl e, st2)
         | (Inr bearer, st2) \<Rightarrow>
             (let (out, w) = http_request endpoint bearer (net st2);
                  st3 = st2\<lparr>net := w\<rparr>
              in case out of
                   Failed \<Rightarrow> (Inl APIError, st3)
                 | Got r \<Rightarrow>
                     if status_code r = 401
                     then (Inl AuthenticationError, invalidate_tokens st3)
                     else if status_code r = 404 then (Inl NotFoundError, st3)
                     else if status_code r = 429 then (Inl RateLimitError, st3)
                     else if status_code r \<ge> 500 then (Inl APIError, st3)
                     else if raise_for_status r then (Inl APIError, st3)
                     else (case json_body r of
                             None \<Rightarrow> (Inl APIError, st3)
                           | Some d \<Rightarrow> (Inr d, st3))))"

text \<open>
  The decorator \<open>@retry(retry=retry_if_exception_type((requests.RequestException,
  APIError)), stop=stop_after_attempt(3), wait=wait_exponential(multiplier=1, min=2,
  max=10), reraise=True)\<close>. \<open>NotFoundError\<close> and \<open>RateLimitError\<close> are
  \<open>APIError\<close>s; \<open>AuthenticationError\<close> is not.
\<close>

definition retry_if_exception_type :: "error \<Rightarrow> bool" where
  "retry_if_exception_type e \<longleftrightarrow>
     e \<in> {RequestException, JSONDecodeError, APIError, NotFoundError, RateLimitError}"

text \<open>
  The wait before the next attempt, after attempt number \<open>k\<close>:
  \<open>2 ^ (k - 1)\<close> seconds, kept between 2 and 10.
\<close>

definition wait_exponential :: "nat \<Rightarrow> int" where
  "wait_exponential k = max 2 (min (2 ^ (k - 1)) 10)"

text \<open>
  \<open>_make_request\<close> with its retries: \<open>attempts_left\<close> counts the attempts still
  allowed, \<open>attempt_number\<close> the current one.
\<close>

fun make_request_attempts ::
  "nat \<Rightarrow> nat \<Rightarrow> string \<Rightarrow> int \<Rightarrow> string \<Rightarrow> client_state \<Rightarrow>
   (error + (string \<times> string) list) \<times> client_state" where
  "make_request_attempts 0 attempt_number credentials rate_limit_delay endpoint st =
     (Inl APIError, st)"
| "make_request_attempts (Suc attempts_left) attempt_number credentials rate_limit_delay
       endpoint st =
     (case make_request_once credentials rate_limit_delay endpoint st of
        (Inr d, st1) \<Rightarrow> (Inr d, st1)
      | (Inl e, st1) \<Rightarrow>
          if retry_if_exception_type e \<and> attempts_left > 0
          then make_request_attempts attempts_left (Suc attempt_number) credentials
                 rate_limit_delay endpoint
                 (st1\<lparr>time_now := time_now st1 + wait_exponential attempt_number\<rparr>)
          else (Inl e, st1))"

definition make_request ::
  "string \<Rightarrow> int \<Rightarrow> string \<Rightarrow> client_state \<Rightarrow>
   (error + (string \<times> string) list) \<times> client_state" where
  "make_request credentials rate_limit_delay endpoint st =
     make_request_attempts 3 1 credentials rate_limit_delay endpoint st"

text \<open>
  For the examples: a client holding the ID token \<open>old\<close>, valid for an hour, and a
  refresh token, facing a server that answers 401, then issues the ID token \<open>new\<close>,
  then answers the request.
\<close>

definition client_demo :: client_state where
  "client_demo =
     \<lparr>refresh_token = Some ''refresh'', id_token = Some (''old'', 3700),
      client_last_request_time = 0, time_now = 100,
      net = \<lparr>pending = [Got \<lparr>status_code = 401, json_body = Some [(''error'', ''Unauthorized'')]\<rparr>,
                         Got \<lparr>status_code = 200, json_body = Some [(''idToken'', ''new'')]\<rparr>,
                         Got \<lparr>status_code = 200, json_body = Some [(''info'', ''data'')]\<rparr>],
             sent = []\<rparr>\<rparr>"


section \<open>Properties of the cache\<close>

text \<open>
  C7. For every key and every empty table, \<open>set(key, empty_table)\<close> leaves the cache
  store unchanged: no entry is created, none is overwritten, nothing is raised, and a
  later \<open>get(key)\<close> (at any time, for any key) returns what it would have returned
  without the call. An empty table is therefore never persisted.
\<close>

theorem set_empty_noop:
  "set_cache now default_ttl key [] ttl st = st
   \<and> get now' key' (set_cache now default_ttl key [] ttl st) = get now' key' st"
  by (simp add: set_cache_def)

text \<open>
  C2 (as amended). For every key and every cache state: a key without a row gives absent
  and leaves the store alone. For a key with a row, \<open>get\<close> returns the stored table
  exactly when the clock is strictly before \<open>expires_at\<close> and the payload unpickles,
  and then the store is unchanged; when the row is expired (\<open>now \<ge> expires_at\<close>),
  \<open>get\<close> deletes the row and returns absent, so the row is gone at the next \<open>get\<close>,
  whatever the time then; an unexpired row whose payload does not unpickle is deleted
  too and reported absent.
\<close>

theorem get_ttl:
  "(st key = None \<longrightarrow> get now key st = (None, st))
   \<and> (st key = Some e \<longrightarrow>
        (fst (get now key st) = Some df \<longleftrightarrow> now < expires_at e \<and> data e = Pickle df)
      \<and> (now < expires_at e \<and> data e = Pickle df \<longrightarrow> get now key st = (Some df, st))
      \<and> (expires_at e \<le> now \<longrightarrow>
            get now key st = (None, st(key := None))
          \<and> snd (get now key st) key = None
          \<and> get now' key (snd (get now key st)) = (None, snd (get now key st)))
      \<and> (now < expires_at e \<and> data e = Corrupt bs \<longrightarrow>
            get now key st = (None, st(key := None))))"
  by (cases "data e")
     (auto simp: get_def sanitize_key_def remove_entry_def Let_def split: option.splits)

text \<open>
  Witness: a row holding the table \<open>[7, 8]\<close> that expires at time 10, read at time 5
  (a hit, the store unchanged) and at time 10 (expired: absent, and the row is deleted).
\<close>

theorem get_ttl_witness:
  "fst (get 5 ''k'' [''k'' \<mapsto> \<lparr>data = Pickle [7, 8 :: nat], row_count = 2,
                                 created_at = 0, expires_at = 10\<rparr>]) = Some [7, 8]
   \<and> fst (get 10 ''k'' [''k'' \<mapsto> \<lparr>data = Pickle [7, 8 :: nat], row_count = 2,
                                 created_at = 0, expires_at = 10\<rparr>]) = None
   \<and> snd (get 10 ''k'' [''k'' \<mapsto> \<lparr>data = Pickle [7, 8 :: nat], row_count = 2,
                                 created_at = 0, expires_at = 10\<rparr>]) ''k'' = None"
  using get_ttl [of "[''k'' \<mapsto> \<lparr>data = Pickle [7, 8 :: nat], row_count = 2,
                                   created_at = 0, expires_at = 10\<rparr>]" "''k''" 5
                   "\<lparr>data = Pickle [7, 8 :: nat], row_count = 2,
                     created_at = 0, expires_at = 10\<rparr>" "[7, 8]"]
        get_ttl [of "[''k'' \<mapsto> \<lparr>data = Pickle [7, 8 :: nat], row_count = 2,
                                   created_at = 0, expires_at = 10\<rparr>]" "''k''" 10
                   "\<lparr>data = Pickle [7, 8 :: nat], row_count = 2,
                     created_at = 0, expires_at = 10\<rparr>" "[7, 8]"]
  by simp

text \<open>
  The claim as first stated (the table is returned if and only if the clock is strictly
  before \<open>expires_at\<close>) fails on a row whose bytes do not unpickle: at time 5 the row
  below, which expires at 10, is reported absent.
\<close>

theorem get_ttl_counterexample:
  "\<not> (fst (get 5 ''k'' [''k'' \<mapsto> \<lparr>data = (Corrupt [0] :: nat blob), row_count = 2,
                                     created_at = 0, expires_at = 10\<rparr>]) \<noteq> None
       \<longleftrightarrow> (5 :: int) < expires_at \<lparr>data = (Corrupt [0] :: nat blob), row_count = 2,
                                     created_at = 0, expires_at = 10\<rparr>)"
  by (simp add: get_def sanitize_key_def remove_entry_def)


section \<open>Properties of the week's trading days\<close>

text \<open>
  For every date Python represents, \<open>get_week_trading_days\<close> raises nothing and
  returns the days Monday to \<open>min(Friday, week_end)\<close> of the calendar week of
  \<open>week_end\<close>, in order.
\<close>

lemma week_days_closed:
  assumes "valid_date week_end"
  shows "get_week_trading_days week_end =
         Inr (map (\<lambda>i. week_end - weekday week_end + i)
                (filter (\<lambda>i. i \<le> weekday week_end) [0, 1, 2, 3, 4]))"
proof -
  let ?k = "weekday week_end"
  have k: "0 \<le> ?k" "?k \<le> 6"
    by (simp_all add: weekday_def)
  have lo: "1 \<le> week_end - ?k"
    using assms unfolding valid_date_def date_min_def weekday_def by presburger
  have hi: "week_end - ?k + 4 \<le> 3652059"
    using assms unfolding valid_date_def date_max_def weekday_def by presburger
  have wd: "\<And>i. 0 \<le> i \<Longrightarrow> i \<le> 6 \<Longrightarrow> weekday (week_end - ?k + i) = i"
    unfolding weekday_def by presburger
  show ?thesis
    using k lo hi wd[of 0] wd[of 1] wd[of 2] wd[of 3] wd[of 4]
    by (simp add: get_week_trading_days_def date_add_days_def date_min_def date_max_def Let_def)
qed

lemma friday_of_week:
  assumes "valid_date week_end" "4 \<le> weekday week_end"
  shows "valid_date (week_end - (weekday week_end - 4))"
    and "weekday (week_end - (weekday week_end - 4)) = 4"
  using assms unfolding valid_date_def date_min_def date_max_def weekday_def
  by presburger+

text \<open>
  C9. For every \<open>week_end\<close>, a Saturday or Sunday included, \<open>get_week_trading_days\<close>
  returns a non-empty list of weekdays (never a Saturday or Sunday, never a day after
  \<open>week_end\<close>). For a weekend \<open>week_end\<close> the list is the five days Monday to Friday
  of that calendar week, the same list as for the Friday of that week.
\<close>

theorem week_trading_days_nonempty:
  assumes "valid_date week_end"
  shows "(\<exists>ds. get_week_trading_days week_end = Inr ds \<and> ds \<noteq> []
              \<and> (\<forall>d \<in> set ds. weekday d < 5 \<and> d \<le> week_end))
       \<and> (5 \<le> weekday week_end \<longrightarrow>
            get_week_trading_days week_end =
              Inr (map (\<lambda>i. week_end - weekday week_end + i) [0, 1, 2, 3, 4])
          \<and> get_week_trading_days week_end =
              get_week_trading_days (week_end - (weekday week_end - 4)))"
proof -
  let ?k = "weekday week_end"
  let ?m = "week_end - ?k"
  have k: "0 \<le> ?k" "?k \<le> 6"
    by (simp_all add: weekday_def)
  have wd: "\<And>i. 0 \<le> i \<Longrightarrow> i \<le> 6 \<Longrightarrow> weekday (?m + i) = i"
    unfolding weekday_def by presburger
  have closed: "get_week_trading_days week_end =
      Inr (map (\<lambda>i. ?m + i) (filter (\<lambda>i. i \<le> ?k) [0, 1, 2, 3, 4]))"
    by (rule week_days_closed [OF assms])
  have first: "\<exists>ds. get_week_trading_days week_end = Inr ds \<and> ds \<noteq> []
              \<and> (\<forall>d \<in> set ds. weekday d < 5 \<and> d \<le> week_end)"
    unfolding closed using k wd[of 0] wd[of 1] wd[of 2] wd[of 3] wd[of 4]
    by auto
  have second: "get_week_trading_days week_end = Inr (map (\<lambda>i. ?m + i) [0, 1, 2, 3, 4])
        \<and> get_week_trading_days week_end =
              get_week_trading_days (week_end - (?k - 4))" if w: "5 \<le> ?k"
  proof -
    have fri: "valid_date (week_end - (?k - 4))" "weekday (week_end - (?k - 4)) = 4"
      using friday_of_week [OF assms] w by simp_all
    have "get_week_trading_days (week_end - (?k - 4)) =
            Inr (map (\<lambda>i. ?m + i) [0, 1, 2, 3, 4])"
      unfolding week_days_closed [OF fri(1)] fri(2) by simp
    moreover have "get_week_trading_days week_end = Inr (map (\<lambda>i. ?m + i) [0, 1, 2, 3, 4])"
      unfolding closed using w by simp
    ultimately show ?thesis by simp
  qed
  from first second show ?thesis by blast
qed

text \<open>
  Witness: day 739199 is a Saturday (2024-11-09); its week gives the five days
  739194 (Monday) to 739198 (Friday), as the Friday 739198 does.
\<close>

theorem week_trading_days_nonempty_witness:
  "valid_date 739199 \<and> weekday 739199 = 5
   \<and> get_week_trading_days 739199 = Inr [739194, 739195, 739196, 739197, 739198]
   \<and> get_week_trading_days 739199 = get_week_trading_days 739198"
proof -
  have v: "valid_date 739199"
    by (simp add: valid_date_def date_min_def date_max_def)
  have w: "weekday 739199 = 5"
    by (simp add: weekday_def)
  from week_trading_days_nonempty [OF v] w
  have "get_week_trading_days 739199 = Inr [739194, 739195, 739196, 739197, 739198]"
    and "get_week_trading_days 739199 = get_week_trading_days 739198"
    by auto
  with v w show ?thesis by simp
qed


section \<open>Properties of the stock rankings\<close>

lemma convert_row_pct: "convert_row r = Inr s \<Longrightarrow> change_pct s = ChangeRate r \<and> code s = Code r"
  by (auto simp: convert_row_def Let_def split: option.splits if_splits)

lemma convert_pcts:
  "convert_to_stock_info rs = Inr ss \<Longrightarrow> map change_pct ss = map ChangeRate rs \<and> map code ss = map Code rs"
  by (induction rs arbitrary: ss) (auto split: sum.splits dest: convert_row_pct)

lemma convert_error:
  "convert_to_stock_info rs = Inl e \<Longrightarrow>
     e = ZeroDivisionError \<and> (\<exists>r \<in> set rs. ChangeRate r = Some (-100) \<and> PrevClose r = None)"
proof (induction rs)
  case Nil then show ?case by simp
next
  case (Cons r rs)
  have row: "convert_row r = Inl e' \<Longrightarrow> e' = ZeroDivisionError \<and> ChangeRate r = Some (-100) \<and> PrevClose r = None" for e'
    by (auto simp: convert_row_def Let_def split: option.splits if_splits) 
  from Cons show ?case
    by (auto split: sum.splits dest: row)
qed

text \<open>
  C10. For every price table and every \<open>top_n\<close>, the stocks \<open>get_top_losers\<close>
  returns all have a strictly negative change rate, and there are at most \<open>top_n\<close> of
  them; a table whose non-null change rates are all at least zero yields the empty list.
  The call raises only \<open>ZeroDivisionError\<close>, and only on a table holding a change
  rate of exactly -100.
\<close>

theorem top_losers_negative:
  "(get_top_losers prices_df top_n = Inr stocks \<longrightarrow>
      (\<forall>s \<in> set stocks. \<exists>x. change_pct s = Some x \<and> x < 0) \<and> int (length stocks) \<le> max 0 top_n)
   \<and> ((\<forall>row \<in> set (rows prices_df). \<forall>x. ChangeRate row = Some x \<longrightarrow> 0 \<le> x) \<longrightarrow>
        get_top_losers prices_df top_n = Inr [])
   \<and> (get_top_losers prices_df top_n = Inl e \<longrightarrow>
        e = ZeroDivisionError \<and> (\<exists>row \<in> set (rows prices_df). ChangeRate row = Some (-100)))"
proof -
  let ?sel = "nsmallest top_n rate_key
      (filter (\<lambda>row. rate_key row < 0) (filter (\<lambda>row. ChangeRate row \<noteq> None) (rows prices_df)))"
  have sel: "set ?sel \<subseteq> {row \<in> set (rows prices_df). \<exists>x. ChangeRate row = Some x \<and> x < 0}"
    unfolding nsmallest_def
    by (auto dest!: in_set_takeD simp: rate_key_def split: option.splits)
  have len: "int (length ?sel) \<le> max 0 top_n"
    unfolding nsmallest_def by simp
  have a: "(\<forall>s \<in> set stocks. \<exists>x. change_pct s = Some x \<and> x < 0) \<and> int (length stocks) \<le> max 0 top_n"
    if "get_top_losers prices_df top_n = Inr stocks"
  proof (cases "empty_frame prices_df \<or> ''ChangeRate'' \<notin> set (columns prices_df)")
    case True
    with that show ?thesis by (simp add: get_top_losers_def)
  next
    case False
    with that have c: "convert_to_stock_info ?sel = Inr stocks"
      by (simp add: get_top_losers_def Let_def)
    from convert_pcts [OF c] have m: "map change_pct stocks = map ChangeRate ?sel" by simp
    have "\<exists>x. change_pct s = Some x \<and> x < 0" if "s \<in> set stocks" for s
    proof -
      from that have "change_pct s \<in> set (map change_pct stocks)" by simp
      then have "change_pct s \<in> ChangeRate ` set ?sel" unfolding m by simp
      then obtain r where "r \<in> set ?sel" "change_pct s = ChangeRate r" by blast
      with sel show ?thesis by auto
    qed
    then have "\<forall>s \<in> set stocks. \<exists>x. change_pct s = Some x \<and> x < 0" by blast
    moreover from m have "length stocks = length ?sel"
      by (metis length_map)
    ultimately show ?thesis using len by simp
  qed
  have b: "get_top_losers prices_df top_n = Inr []"
    if h: "\<forall>row \<in> set (rows prices_df). \<forall>x. ChangeRate row = Some x \<longrightarrow> 0 \<le> x"
  proof -
    from h have "filter (\<lambda>row. rate_key row < 0) (filter (\<lambda>row. ChangeRate row \<noteq> None) (rows prices_df)) = []"
      by (auto simp: filter_empty_conv rate_key_def split: option.splits)
    then show ?thesis
      by (simp add: get_top_losers_def Let_def nsmallest_def)
  qed
  have c: "e = ZeroDivisionError \<and> (\<exists>row \<in> set (rows prices_df). ChangeRate row = Some (-100))"
    if "get_top_losers prices_df top_n = Inl e"
  proof -
    from that have "convert_to_stock_info ?sel = Inl e"
      by (simp add: get_top_losers_def Let_def split: if_splits)
    from convert_error [OF this] sel show ?thesis by blast
  qed
  from a b c show ?thesis by blast
qed


text \<open>
  Witness: a table of a gainer, an unchanged stock and a stock without a rate has no
  loser; a table with two losers and a gainer lists the losers, the larger fall first.
\<close>

theorem top_losers_negative_witness:
  "get_top_losers
     \<lparr>columns = [''Code'', ''Close'', ''ChangeRate''],
      rows = [price_demo ''1301'' (Some 2), price_demo ''1302'' (Some 0),
              price_demo ''1303'' None]\<rparr> 3 = Inr []
   \<and> (\<exists>stocks. get_top_losers
         \<lparr>columns = [''Code'', ''Close'', ''ChangeRate''],
          rows = [price_demo ''1301'' (Some (-1)), price_demo ''1302'' (Some 4),
                  price_demo ''1303'' (Some (-3))]\<rparr> 3 = Inr stocks
        \<and> map code stocks = [''1303'', ''1301'']
        \<and> map change_pct stocks = [Some (-3), Some (-1)])"
proof -
  have "get_top_losers
     \<lparr>columns = [''Code'', ''Close'', ''ChangeRate''],
      rows = [price_demo ''1301'' (Some 2), price_demo ''1302'' (Some 0),
              price_demo ''1303'' None]\<rparr> 3 = Inr []"
    using top_losers_negative
      [of "\<lparr>columns = [''Code'', ''Close'', ''ChangeRate''],
            rows = [price_demo ''1301'' (Some 2), price_demo ''1302'' (Some 0),
                    price_demo ''1303'' None]\<rparr>" 3 "[]"]
    by simp
  moreover have "\<exists>stocks. get_top_losers
         \<lparr>columns = [''Code'', ''Close'', ''ChangeRate''],
          rows = [price_demo ''1301'' (Some (-1)), price_demo ''1302'' (Some 4),
                  price_demo ''1303'' (Some (-3))]\<rparr> 3 = Inr stocks
        \<and> map code stocks = [''1303'', ''1301'']
        \<and> map change_pct stocks = [Some (-3), Some (-1)]"
    by (simp add: get_top_losers_def empty_frame_def nsmallest_def rate_key_def
          convert_row_def Let_def)
  ultimately show ?thesis by blast
qed


section \<open>Properties of the advance-decline ratio\<close>












section \<open>The moving average of the daily analyzer\<close>

text \<open>
  C5. The claim asks for a null moving average for an instrument with fewer than 80% of
  the \<open>period\<close> days in the historical data. \<open>calculate_ma_divergence\<close> has no such
  test: with a single historical close of 80 for code 1301 (1 day of 25) and a current
  close of 100, the moving average is 80, the instrument enters the aggregate divergence
  (25 percent) and the percent-above-MA statistic (100 percent). The weekly analyzer's
  \<open>_calculate_ma_status\<close> does apply the test and gives a null on the same data.
\<close>

theorem ma_divergence_ignores_coverage:
  "ma_value [hist_demo ''1301'' 739190 80 None] 25 ''1301'' = Some 80
   \<and> calculate_ma_divergence
       \<lparr>columns = [''Code'', ''Close'', ''ChangeRate''], rows = [price_demo ''1301'' (Some 2)]\<rparr>
       \<lparr>columns = [''Code'', ''Date'', ''Close''],
        rows = [hist_demo ''1301'' 739190 80 None]\<rparr> 25
     = (Some (Fin 25), Some 100)
   \<and> weekly_ma_value [hist_demo ''1301'' 739190 80 None] 25 ''1301'' = None"
  by (simp add: ma_value_def calculate_ma_divergence_def weekly_ma_value_def empty_frame_def
        tail_def pct_of_def fmean_def Let_def)


section \<open>Properties of the weekly aggregation\<close>

subsection \<open>Stable sorting by date within a code\<close>











subsection \<open>Joins\<close>




lemma merge_left_snd:
  "(l, m) \<in> set (merge_left left lk r rk) \<Longrightarrow>
     l \<in> set left \<and> (case m of None \<Rightarrow> lk l \<notin> rk ` set r
                       | Some y \<Rightarrow> y \<in> set r \<and> rk y = lk l)"
proof (induction left)
  case Nil
  then show ?case by (simp add: merge_left_def)
next
  case (Cons x left)
  show ?case
  proof (cases "(l, m) \<in> set (merge_left left lk r rk)")
    case True
    with Cons.IH show ?thesis by simp
  next
    case False
    with Cons.prems have in_x: "(l, m) \<in> set (case filter (\<lambda>y. rk y = lk x) r of [] \<Rightarrow> [(x, None)]
                 | ms \<Rightarrow> map (\<lambda>y. (x, Some y)) ms)"
      by (simp add: merge_left_def)
    show ?thesis
    proof (cases "filter (\<lambda>y. rk y = lk x) r")
      case Nil
      with in_x have "l = x" "m = None" by simp_all
      moreover from Nil have "lk x \<notin> rk ` set r"
        by (auto simp: filter_empty_conv)
      ultimately show ?thesis by simp
    next
      case (Cons y ys)
      with in_x obtain z where z: "z \<in> set (filter (\<lambda>y. rk y = lk x) r)" "l = x" "m = Some z"
        by auto
      then show ?thesis by simp
    qed
  qed
qed



subsection \<open>Aggregated columns\<close>







lemma aggregate_frames_alt:
  "aggregate_frames daily_dfs prev =
     (if prev \<noteq> None \<and> the prev \<noteq> [] then
        map with_weekly_return (merge_left (weekly_agg_with_info daily_dfs) WCode (the prev) DCode)
      else map (\<lambda>w. w\<lparr>WeeklyReturn := NaN, PrevWeekClose := None\<rparr>) (weekly_agg_with_info daily_dfs))"
  by (simp add: aggregate_frames_def Let_def)




subsection \<open>Groups\<close>




subsection \<open>The collection loop\<close>


lemma aggregate_daily_quotes_frames:
  assumes "collect_daily cache_get fetcher strftime trading_days s = (daily_dfs, s')"
    and "daily_dfs \<noteq> []"
  shows "aggregate_daily_quotes cache_get fetcher strftime trading_days prev s
           = (aggregate_frames daily_dfs prev, s')"
proof -
  from assms have "trading_days \<noteq> []" by auto
  with assms show ?thesis by (simp add: aggregate_daily_quotes_def)
qed





subsection \<open>The join with the previous week\<close>

lemma return_cols:
  "WCode (with_weekly_return (l, m)) = WCode l"
  "WeekClose (with_weekly_return (l, m)) = WeekClose l"
  by (simp_all add: with_weekly_return_def split: option.splits)

lemma frames_return:
  assumes "w \<in> set (aggregate_frames daily_dfs prev)"
  shows "(prev = None \<or> WCode w \<notin> DCode ` set (the prev)) \<longrightarrow>
           WeeklyReturn w = NaN \<and> PrevWeekClose w = None"
    and "prev \<noteq> None \<and> WCode w \<in> DCode ` set (the prev) \<longrightarrow>
           (\<exists>p \<in> set (the prev). DCode p = WCode w \<and> PrevWeekClose w = Some (DClose p)
              \<and> WeeklyReturn w = pct_of (WeekClose w - DClose p) (DClose p))"
proof -
  have "((prev = None \<or> WCode w \<notin> DCode ` set (the prev)) \<longrightarrow>
           WeeklyReturn w = NaN \<and> PrevWeekClose w = None)
      \<and> (prev \<noteq> None \<and> WCode w \<in> DCode ` set (the prev) \<longrightarrow>
           (\<exists>p \<in> set (the prev). DCode p = WCode w \<and> PrevWeekClose w = Some (DClose p)
              \<and> WeeklyReturn w = pct_of (WeekClose w - DClose p) (DClose p)))"
  proof (cases "prev \<noteq> None \<and> the prev \<noteq> []")
    case True
    with assms obtain l m where lm: "(l, m) \<in> set (merge_left (weekly_agg_with_info daily_dfs)
                                        WCode (the prev) DCode)"
      and w: "w = with_weekly_return (l, m)"
      by (auto simp: aggregate_frames_alt)
    from merge_left_snd [OF lm]
    have m: "case m of None \<Rightarrow> WCode l \<notin> DCode ` set (the prev)
             | Some y \<Rightarrow> y \<in> set (the prev) \<and> DCode y = WCode l"
      by simp
    show ?thesis
    proof (cases m)
      case None
      with m w True show ?thesis
        by (simp add: with_weekly_return_def)
    next
      case (Some y)
      with m have y: "y \<in> set (the prev)" "DCode y = WCode l" by simp_all
      from Some w have "WCode w = WCode l" "PrevWeekClose w = Some (DClose y)"
        "WeeklyReturn w = pct_of (WeekClose w - DClose y) (DClose y)"
        by (simp_all add: with_weekly_return_def)
      with y True show ?thesis by force
    qed
  next
    case False
    with assms have "WeeklyReturn w = NaN \<and> PrevWeekClose w = None"
      by (auto simp: aggregate_frames_alt)
    moreover from False have "prev = None \<or> WCode w \<notin> DCode ` set (the prev)"
      by auto
    ultimately show ?thesis by blast
  qed
  then show "(prev = None \<or> WCode w \<notin> DCode ` set (the prev)) \<longrightarrow>
           WeeklyReturn w = NaN \<and> PrevWeekClose w = None"
    and "prev \<noteq> None \<and> WCode w \<in> DCode ` set (the prev) \<longrightarrow>
           (\<exists>p \<in> set (the prev). DCode p = WCode w \<and> PrevWeekClose w = Some (DClose p)
              \<and> WeeklyReturn w = pct_of (WeekClose w - DClose p) (DClose p))"
    by blast+
qed

subsection \<open>The example week\<close>

lemma collect_demo:
  "collect_daily (get 5) None strftime_demo [739201, 739202, 739203, 739204, 739205] store_demo
     = (week_demo, store_demo)"
  by (simp add: strftime_demo_def store_demo_def entry_demo_def week_demo_def get_def
        sanitize_key_def Let_def)

lemma collect_demo_partial:
  "collect_daily (get 5) None strftime_demo [739201, 739202, 739203, 739204, 739205]
       (store_demo(''daily_quotes_2024-11-13'' := None))
     = ([week_demo ! 0, week_demo ! 1, week_demo ! 3, week_demo ! 4],
        store_demo(''daily_quotes_2024-11-13'' := None))"
  by (simp add: strftime_demo_def store_demo_def entry_demo_def week_demo_def get_def
        sanitize_key_def Let_def)



lemma frames_demo_close:
  "map (\<lambda>w. (WCode w, WeekClose w)) (aggregate_frames week_demo None) = [(''1301'', 14.5)]"
  "map (\<lambda>w. (WCode w, WeekClose w))
       (aggregate_frames [week_demo ! 0, week_demo ! 1, week_demo ! 3, week_demo ! 4]
          (Some [quote_demo ''1301'' 8 8])) = [(''1301'', 14.5)]"
  by code_simp+


subsection \<open>The weekly rows\<close>




text \<open>
  C6. Every row that \<open>aggregate_daily_quotes\<close> returns for an instrument without a row
  of its code in the previous-week table, or when no previous-week table is given at
  all, has a null \<open>WeeklyReturn\<close> (a NaN, not the number 0) and a null
  \<open>PrevWeekClose\<close>. A row whose code the previous-week table has carries the close
  \<open>p\<close> of one of that code's previous-week rows and the return
  \<open>(WeekClose - p) / p * 100\<close>, which is that finite number whenever \<open>p\<close> is not 0.
\<close>

theorem weekly_return_null_without_prev:
  assumes "collect_daily cache_get fetcher strftime trading_days s = (daily_dfs, s')"
    and "daily_dfs \<noteq> []"
  shows "\<forall>w \<in> set (fst (aggregate_daily_quotes cache_get fetcher strftime trading_days prev s)).
           ((prev = None \<or> WCode w \<notin> DCode ` set (the prev)) \<longrightarrow>
              WeeklyReturn w = NaN \<and> WeeklyReturn w \<noteq> Fin 0 \<and> PrevWeekClose w = None)
         \<and> (prev \<noteq> None \<and> WCode w \<in> DCode ` set (the prev) \<longrightarrow>
              (\<exists>p \<in> set (the prev). DCode p = WCode w \<and> PrevWeekClose w = Some (DClose p)
                 \<and> WeeklyReturn w = pct_of (WeekClose w - DClose p) (DClose p)
                 \<and> (DClose p \<noteq> 0 \<longrightarrow>
                      WeeklyReturn w = Fin ((WeekClose w - DClose p) / DClose p * 100))))"
proof
  fix w
  assume "w \<in> set (fst (aggregate_daily_quotes cache_get fetcher strftime trading_days prev s))"
  then have w: "w \<in> set (aggregate_frames daily_dfs prev)"
    by (simp add: aggregate_daily_quotes_frames [OF assms])
  from frames_return [OF w]
  show "((prev = None \<or> WCode w \<notin> DCode ` set (the prev)) \<longrightarrow>
              WeeklyReturn w = NaN \<and> WeeklyReturn w \<noteq> Fin 0 \<and> PrevWeekClose w = None)
         \<and> (prev \<noteq> None \<and> WCode w \<in> DCode ` set (the prev) \<longrightarrow>
              (\<exists>p \<in> set (the prev). DCode p = WCode w \<and> PrevWeekClose w = Some (DClose p)
                 \<and> WeeklyReturn w = pct_of (WeekClose w - DClose p) (DClose p)
                 \<and> (DClose p \<noteq> 0 \<longrightarrow>
                      WeeklyReturn w = Fin ((WeekClose w - DClose p) / DClose p * 100))))"
    by (auto simp: pct_of_def)
qed

text \<open>
  Witness: the example week without a previous-week table has a null return; with a
  previous close of 8 for 1301 the return is (14.5 - 8) / 8 * 100 = 81.25.
\<close>

theorem weekly_return_null_without_prev_witness:
  "map WeeklyReturn (fst (aggregate_daily_quotes (get 5) None strftime_demo
             [739201, 739202, 739203, 739204, 739205] None store_demo)) = [NaN]
   \<and> map WeeklyReturn (fst (aggregate_daily_quotes (get 5) None strftime_demo
             [739201, 739202, 739203, 739204, 739205] (Some [quote_demo ''1301'' 8 8])
             (store_demo(''daily_quotes_2024-11-13'' := None)))) = [Fin 81.25]"
proof -
  let ?r1 = "fst (aggregate_daily_quotes (get 5) None strftime_demo
             [739201, 739202, 739203, 739204, 739205] None store_demo)"
  let ?r2 = "fst (aggregate_daily_quotes (get 5) None strftime_demo
             [739201, 739202, 739203, 739204, 739205] (Some [quote_demo ''1301'' 8 8])
             (store_demo(''daily_quotes_2024-11-13'' := None)))"
  have ne: "week_demo \<noteq> []"
    by (simp add: week_demo_def)
  have ne': "[week_demo ! 0, week_demo ! 1, week_demo ! 3, week_demo ! 4] \<noteq> []"
    by simp
  have s1: "map (\<lambda>w. (WCode w, WeekClose w)) ?r1 = [(''1301'', 14.5)]"
    using frames_demo_close(1) by (simp add: aggregate_daily_quotes_frames [OF collect_demo ne])
  have s2: "map (\<lambda>w. (WCode w, WeekClose w)) ?r2 = [(''1301'', 14.5)]"
    using frames_demo_close(2)
    by (simp add: aggregate_daily_quotes_frames [OF collect_demo_partial ne'])
  from s1 obtain w1 where w1: "?r1 = [w1]" "WCode w1 = ''1301''" "WeekClose w1 = 14.5"
    by auto
  from s2 obtain w2 where w2: "?r2 = [w2]" "WCode w2 = ''1301''" "WeekClose w2 = 14.5"
    by auto
  from weekly_return_null_without_prev [OF collect_demo ne, of None] w1
  have "WeeklyReturn w1 = NaN"
    by simp
  moreover
  from weekly_return_null_without_prev [OF collect_demo_partial ne',
         of "Some [quote_demo ''1301'' 8 8]"] w2(1,2)
  have "WeeklyReturn w2 = Fin ((WeekClose w2 - 8) / 8 * 100)"
    by (simp add: pct_of_def)
  then have "WeeklyReturn w2 = Fin 81.25"
    unfolding w2(3) by simp
  ultimately show ?thesis
    using w1 w2 by simp
qed


section \<open>Properties of the fetcher\<close>

lemma fetch_dataset_returns:
  "\<exists>df st'. fetch_dataset pd_DataFrame client spec force_refresh st = (Inr df, st')"
  by (auto simp: fetch_dataset_def Let_def split: prod.splits option.splits sum.splits)

lemma fetch_dataset_api_failure:
  assumes "force_refresh \<or> fst (get (clock st) (cache_key spec) (cache st)) = None"
    and "\<And>st0. fst (make_api_call client (method_name spec) (args spec) st0) = PNone"
  shows "fst (fetch_dataset pd_DataFrame client spec force_refresh st) = Inr []"
  using assms
  by (auto simp: fetch_dataset_def Let_def split: prod.splits option.splits sum.splits)
     (metis fst_conv)+

lemma make_api_call_failure:
  "fst (make_api_call client m a st) = PNone \<longleftrightarrow>
     (client m = None \<or> (\<exists>method. client m = Some method
        \<and> ((\<exists>e. method a = Inl e) \<or> method a = Inr PNone)))"
  by (auto simp: make_api_call_def Let_def split: option.splits sum.splits)

lemma fetch_dataset_processing_failure:
  assumes "force_refresh \<or> fst (get (clock st) (cache_key spec) (cache st)) = None"
    and "client (method_name spec) = Some method"
    and "method (args spec) = Inr response"
    and "response_to_frame pd_DataFrame spec response = Inl e"
  shows "fst (fetch_dataset pd_DataFrame client spec force_refresh st) = Inr []"
  using assms
  by (auto simp: fetch_dataset_def make_api_call_def Let_def
           split: prod.splits option.splits sum.splits)

text \<open>
  C3. Every fetch operation of the fetcher returns a table and lets no exception out.
  When the cache gives nothing (or is bypassed) and the API call fails (the client has no
  such method, the method raises, whatever the exception, or it returns \<open>None\<close>), the
  returned table is empty; so it is when the call succeeds and turning the response into
  a table raises.
\<close>

theorem fetch_failure_gives_empty_table:
  "(\<exists>df st'. run_fetch pd_DataFrame client strftime op force_refresh st = (Inr df, st'))
   \<and> ((force_refresh
         \<or> fst (get (clock st) (cache_key (spec_of strftime op)) (cache st)) = None)
        \<and> (client (method_name (spec_of strftime op)) = None
            \<or> (\<exists>method. client (method_name (spec_of strftime op)) = Some method
                 \<and> ((\<exists>e. method (args (spec_of strftime op)) = Inl e)
                     \<or> method (args (spec_of strftime op)) = Inr PNone)))
        \<longrightarrow> fst (run_fetch pd_DataFrame client strftime op force_refresh st) = Inr [])
   \<and> ((force_refresh
         \<or> fst (get (clock st) (cache_key (spec_of strftime op)) (cache st)) = None)
        \<and> (\<exists>method response e.
              client (method_name (spec_of strftime op)) = Some method
            \<and> method (args (spec_of strftime op)) = Inr response
            \<and> response_to_frame pd_DataFrame (spec_of strftime op) response = Inl e)
        \<longrightarrow> fst (run_fetch pd_DataFrame client strftime op force_refresh st) = Inr [])"
proof -
  let ?spec = "spec_of strftime op"
  have a: "\<exists>df st'. run_fetch pd_DataFrame client strftime op force_refresh st = (Inr df, st')"
    unfolding run_fetch_def by (rule fetch_dataset_returns)
  have b: "fst (run_fetch pd_DataFrame client strftime op force_refresh st) = Inr []"
    if miss: "force_refresh \<or> fst (get (clock st) (cache_key ?spec) (cache st)) = None"
      and fail: "client (method_name ?spec) = None
            \<or> (\<exists>method. client (method_name ?spec) = Some method
                 \<and> ((\<exists>e. method (args ?spec) = Inl e) \<or> method (args ?spec) = Inr PNone))"
  proof -
    from fail have "fst (make_api_call client (method_name ?spec) (args ?spec) st0) = PNone"
      for st0 :: "'a fetcher"
      by (simp only: make_api_call_failure)
    with miss show ?thesis
      unfolding run_fetch_def by (intro fetch_dataset_api_failure) auto
  qed
  have c: "fst (run_fetch pd_DataFrame client strftime op force_refresh st) = Inr []"
    if miss: "force_refresh \<or> fst (get (clock st) (cache_key ?spec) (cache st)) = None"
      and fail: "\<exists>method response e. client (method_name ?spec) = Some method
            \<and> method (args ?spec) = Inr response
            \<and> response_to_frame pd_DataFrame ?spec response = Inl e"
    using miss fail unfolding run_fetch_def
    by (auto intro: fetch_dataset_processing_failure)
  from a b c show ?thesis by blast
qed

text \<open>
  Witness: \<open>fetch_daily_quotes\<close> on an empty cache returns the empty table when the
  client raises \<open>RequestException\<close> and when the response cannot be made a table;
  with a good response it returns the table.
\<close>

theorem fetch_failure_gives_empty_table_witness:
  "fst (fetch_daily_quotes frame_demo client_down (\<lambda>d. ''2024-11-11'') 739201 None False
          fetcher_demo) = Inr []
   \<and> fst (fetch_daily_quotes frame_demo (client_up (PStr ''oops'')) (\<lambda>d. ''2024-11-11'')
            739201 None False fetcher_demo) = Inr []
   \<and> fst (fetch_daily_quotes frame_demo (client_up (PList [PNum 1, PNum 2]))
            (\<lambda>d. ''2024-11-11'') 739201 None False fetcher_demo) = Inr [1, 2]"
proof -
  have "fst (run_fetch frame_demo client_down (\<lambda>d. ''2024-11-11'')
               (FetchDailyQuotes 739201 None) False fetcher_demo) = Inr []"
    using fetch_failure_gives_empty_table
      [of frame_demo client_down "\<lambda>d. ''2024-11-11''" "FetchDailyQuotes 739201 None"
          False fetcher_demo]
    by (simp add: client_down_def fetcher_demo_def get_def sanitize_key_def)
  moreover
  have "fst (run_fetch frame_demo (client_up (PStr ''oops'')) (\<lambda>d. ''2024-11-11'')
               (FetchDailyQuotes 739201 None) False fetcher_demo) = Inr []"
    using fetch_failure_gives_empty_table
      [of frame_demo "client_up (PStr ''oops'')" "\<lambda>d. ''2024-11-11''"
          "FetchDailyQuotes 739201 None" False fetcher_demo]
    by (simp add: client_up_def fetcher_demo_def get_def sanitize_key_def
          response_to_frame_def)
  moreover
  have "fst (run_fetch frame_demo (client_up (PList [PNum 1, PNum 2])) (\<lambda>d. ''2024-11-11'')
               (FetchDailyQuotes 739201 None) False fetcher_demo) = Inr [1, 2]"
    by (simp add: run_fetch_def fetch_dataset_def make_api_call_def rate_limit_def
          client_up_def fetcher_demo_def get_def sanitize_key_def response_to_frame_def
          MIN_REQUEST_INTERVAL_def Let_def)
  ultimately show ?thesis
    by (simp add: fetch_daily_quotes_def)
qed


section \<open>Properties of the API client\<close>

lemma make_request_once_401:
  assumes "get_auth_headers credentials (enforce_rate_limit d st) = (Inr bearer, st2)"
    and "pending (net st2) = Got r # rest"
    and "status_code r = 401"
  shows "make_request_once credentials d endpoint st =
           (Inl AuthenticationError,
            invalidate_tokens
              (st2\<lparr>net := (net st2)\<lparr>pending := rest,
                                       sent := sent (net st2) @ [(endpoint, bearer)]\<rparr>\<rparr>))"
  using assms by (simp add: make_request_once_def http_request_def Let_def)

lemma make_request_once_auth_failure:
  assumes "get_auth_headers credentials (enforce_rate_limit d st) = (Inl e, st2)"
  shows "make_request_once credentials d endpoint st = (Inl e, st2)"
  using assms by (simp add: make_request_once_def Let_def)

lemma make_request_not_retried:
  assumes "make_request_once credentials d endpoint st = (Inl e, st1)"
    and "\<not> retry_if_exception_type e"
  shows "make_request credentials d endpoint st = (Inl e, st1)"
  using assms by (simp add: make_request_def numeral_3_eq_3)

lemma renewed_after_invalidation:
  assumes "id_token st = None"
    and "get_auth_headers credentials st = (Inr t, st')"
  shows "id_token st' = Some (t, time_now st' + 24 * 60 * 60)
       \<and> sent (net st') \<noteq> []
       \<and> fst (last (sent (net st'))) = TOKEN_AUTH_REFRESH_ENDPOINT"
  using assms
  by (auto simp: get_auth_headers_def get_id_token_def http_request_def Let_def
           split: prod.splits sum.splits list.splits http_outcome.splits option.splits
                  if_splits)

text \<open>
  C8 (as amended). When an API request receives a 401 response, the client invalidates
  the cached ID token and raises \<open>AuthenticationError\<close> at once: the request is sent
  once and not retried, and nothing else of the script is consumed. An
  \<open>AuthenticationError\<close> from obtaining the token is not retried either. The renewed
  token is obtained by the next request the caller makes: with the ID token invalidated,
  getting the headers succeeds only through a request to the token refresh endpoint,
  which stores a fresh ID token.
\<close>

theorem unauthorized_invalidates_without_retry:
  "(get_auth_headers credentials (enforce_rate_limit d st) = (Inr bearer, st2)
      \<and> pending (net st2) = Got r # rest \<and> status_code r = 401 \<longrightarrow>
        fst (make_request credentials d endpoint st) = Inl AuthenticationError
      \<and> id_token (snd (make_request credentials d endpoint st)) = None
      \<and> refresh_token (snd (make_request credentials d endpoint st)) = refresh_token st2
      \<and> sent (net (snd (make_request credentials d endpoint st)))
           = sent (net st2) @ [(endpoint, bearer)]
      \<and> pending (net (snd (make_request credentials d endpoint st))) = rest)
   \<and> (get_auth_headers credentials (enforce_rate_limit d st) = (Inl AuthenticationError, st2)
        \<longrightarrow> make_request credentials d endpoint st = (Inl AuthenticationError, st2))
   \<and> (id_token st = None \<and> get_auth_headers credentials st = (Inr t, st') \<longrightarrow>
        id_token st' = Some (t, time_now st' + 24 * 60 * 60)
      \<and> sent (net st') \<noteq> []
      \<and> fst (last (sent (net st'))) = TOKEN_AUTH_REFRESH_ENDPOINT)"
proof -
  have no_retry: "\<not> retry_if_exception_type AuthenticationError"
    by (simp add: retry_if_exception_type_def)
  have a: "make_request credentials d endpoint st =
           (Inl AuthenticationError,
            invalidate_tokens
              (st2\<lparr>net := (net st2)\<lparr>pending := rest,
                                       sent := sent (net st2) @ [(endpoint, bearer)]\<rparr>\<rparr>))"
    if "get_auth_headers credentials (enforce_rate_limit d st) = (Inr bearer, st2)"
      and "pending (net st2) = Got r # rest" and "status_code r = 401"
    using make_request_not_retried [OF make_request_once_401 [OF that] no_retry] .
  have b: "make_request credentials d endpoint st = (Inl AuthenticationError, st2)"
    if "get_auth_headers credentials (enforce_rate_limit d st) = (Inl AuthenticationError, st2)"
    using make_request_not_retried [OF make_request_once_auth_failure [OF that] no_retry] .
  note c = renewed_after_invalidation [of st credentials t st']
  from a b c show ?thesis
    by (auto simp: invalidate_tokens_def)
qed

text \<open>
  Witness: the client holds the ID token \<open>old\<close>; the server answers 401. The call ends
  with \<open>AuthenticationError\<close> after the one request, the ID token is gone and the two
  further answers of the server are untouched. The caller's next call fetches the token
  \<open>new\<close> and succeeds with it.
\<close>

theorem unauthorized_invalidates_without_retry_witness:
  "fst (make_request ''cred'' 1 ''/listed/info'' client_demo) = Inl AuthenticationError
   \<and> id_token (snd (make_request ''cred'' 1 ''/listed/info'' client_demo)) = None
   \<and> sent (net (snd (make_request ''cred'' 1 ''/listed/info'' client_demo)))
        = [(''/listed/info'', ''old'')]
   \<and> length (pending (net (snd (make_request ''cred'' 1 ''/listed/info'' client_demo)))) = 2
   \<and> fst (make_request ''cred'' 1 ''/listed/info''
            (snd (make_request ''cred'' 1 ''/listed/info'' client_demo)))
        = Inr [(''info'', ''data'')]"
proof -
  have h: "get_auth_headers ''cred'' (enforce_rate_limit 1 client_demo)
             = (Inr ''old'', enforce_rate_limit 1 client_demo)"
    by (simp add: get_auth_headers_def get_id_token_def enforce_rate_limit_def
          client_demo_def is_expired_def Let_def)
  have p: "pending (net (enforce_rate_limit 1 client_demo))
             = Got \<lparr>status_code = 401, json_body = Some [(''error'', ''Unauthorized'')]\<rparr>
               # [Got \<lparr>status_code = 200, json_body = Some [(''idToken'', ''new'')]\<rparr>,
                  Got \<lparr>status_code = 200, json_body = Some [(''info'', ''data'')]\<rparr>]"
    by (simp add: enforce_rate_limit_def client_demo_def Let_def)
  from unauthorized_invalidates_without_retry
    [of "''cred''" 1 client_demo "''old''" "enforce_rate_limit 1 client_demo"
        "\<lparr>status_code = 401, json_body = Some [(''error'', ''Unauthorized'')]\<rparr>"
        "[Got \<lparr>status_code = 200, json_body = Some [(''idToken'', ''new'')]\<rparr>,
          Got \<lparr>status_code = 200, json_body = Some [(''info'', ''data'')]\<rparr>]"
        "''/listed/info''"] h p
  have first: "fst (make_request ''cred'' 1 ''/listed/info'' client_demo) = Inl AuthenticationError"
    "id_token (snd (make_request ''cred'' 1 ''/listed/info'' client_demo)) = None"
    "sent (net (snd (make_request ''cred'' 1 ''/listed/info'' client_demo)))
        = sent (net (enforce_rate_limit 1 client_demo)) @ [(''/listed/info'', ''old'')]"
    "pending (net (snd (make_request ''cred'' 1 ''/listed/info'' client_demo)))
        = [Got \<lparr>status_code = 200, json_body = Some [(''idToken'', ''new'')]\<rparr>,
           Got \<lparr>status_code = 200, json_body = Some [(''info'', ''data'')]\<rparr>]"
    by simp_all
  have s: "sent (net (enforce_rate_limit 1 client_demo)) = []"
    by (simp add: enforce_rate_limit_def client_demo_def Let_def)
  have second: "fst (make_request ''cred'' 1 ''/listed/info''
            (snd (make_request ''cred'' 1 ''/listed/info'' client_demo)))
        = Inr [(''info'', ''data'')]"
    by code_simp
  from first s second show ?thesis by simp
qed

text \<open>
  The claim as first stated (the request is retried once with a renewed token) fails on
  the same run: were the request retried, the server's next two answers would let it
  succeed with the token \<open>new\<close>; the call ends with \<open>AuthenticationError\<close> instead,
  having sent the one request with the token \<open>old\<close>.
\<close>

theorem unauthorized_retry_counterexample:
  "fst (make_request ''cred'' 1 ''/listed/info'' client_demo) = Inl AuthenticationError
   \<and> sent (net (snd (make_request ''cred'' 1 ''/listed/info'' client_demo)))
        = [(''/listed/info'', ''old'')]"
  by code_simp


end
